theory Spec2Isabelle
  imports Complex_Main "HOL-Library.Sublist"
begin

section \<open>Python values used by backend/app.py\<close>

text \<open>
  A Python \<open>str\<close> is a sequence of Unicode code points; it is modelled as the list of
  its code points, so that \<open>str.strip\<close> sees the same characters as the interpreter.
  Literals of the source are written as Isabelle strings and converted with \<open>py\<close>.
\<close>

type_synonym pystr = "nat list"

definition py :: "string \<Rightarrow> pystr" where
  "py s = map of_char s"

text \<open>The line feed of the source's \<^verbatim>\<open>\n\<close> escapes.\<close>

definition nl :: pystr where
  "nl = [10]"

text \<open>
  The exceptions the handlers can raise. \<open>LibraryError\<close> stands for any exception raised
  inside a call into torch, transformers, peft, pandas, json or the file system; the
  handlers catch nothing, so it propagates.
\<close>

datatype error =
    TypeError
  | AttributeError
  | IndexError
  | StopIteration
  | LibraryError pystr

subsection \<open>\<open>str.strip()\<close>\<close>

text \<open>
  CPython's \<open>Py_UNICODE_ISSPACE\<close>: the ASCII table entries 9..13 and 28..32, and above
  ASCII the code points 0x85, 0xA0, 0x1680, 0x2000..0x200A, 0x2028, 0x2029, 0x202F,
  0x205F and 0x3000.
\<close>

definition isspace :: "nat \<Rightarrow> bool" where
  "isspace c =
     ((9 \<le> c \<and> c \<le> 13) \<or> (28 \<le> c \<and> c \<le> 32) \<or> c = 133 \<or> c = 160 \<or> c = 5760
      \<or> (8192 \<le> c \<and> c \<le> 8202) \<or> c = 8232 \<or> c = 8233 \<or> c = 8239 \<or> c = 8287
      \<or> c = 12288)"

definition lstrip :: "pystr \<Rightarrow> pystr" where
  "lstrip s = dropWhile isspace s"

definition rstrip :: "pystr \<Rightarrow> pystr" where
  "rstrip s = rev (dropWhile isspace (rev s))"

definition strip :: "pystr \<Rightarrow> pystr" where
  "strip s = rstrip (lstrip s)"

subsection \<open>The \<open>in\<close> operator on strings\<close>

fun str_contains :: "pystr \<Rightarrow> pystr \<Rightarrow> bool" where
  "str_contains sub [] = (sub = [])"
| "str_contains sub (c # cs) = (prefix sub (c # cs) \<or> str_contains sub cs)"

subsection \<open>The format specification \<open>{n:,}\<close>\<close>

text \<open>
  The counts formatted by \<open>model_info\<close> are sums of element counts, hence natural
  numbers: decimal digits, most significant first, with a comma before every group of
  three digits counted from the right.
\<close>

fun digits :: "nat \<Rightarrow> pystr" where
  "digits n = (if n < 10 then [48 + n] else digits (n div 10) @ [48 + n mod 10])"

declare digits.simps [simp del]

fun group3 :: "pystr \<Rightarrow> pystr" where
  "group3 (a # b # c # d # rest) = a # b # c # 44 # group3 (d # rest)"
| "group3 ds = ds"

definition format_thousands :: "nat \<Rightarrow> pystr" where
  "format_thousands n = rev (group3 (rev (digits n)))"

section \<open>Module-level configuration (lines 30 to 34)\<close>

type_synonym environ = "pystr \<rightharpoonup> pystr"

text \<open>\<open>os.environ.get(key, default)\<close>\<close>

definition environ_get :: "environ \<Rightarrow> pystr \<Rightarrow> pystr \<Rightarrow> pystr" where
  "environ_get env key dflt = (case env key of None \<Rightarrow> dflt | Some v \<Rightarrow> v)"

record config =
  MODEL_NAME :: pystr
  ADAPTER_PATH :: pystr
  METRICS_PATH :: pystr
  EXPERIMENTS_PATH :: pystr
  PERPLEXITY_PATH :: pystr

definition resolve_config :: "environ \<Rightarrow> config" where
  "resolve_config env =
     \<lparr> MODEL_NAME = py ''TinyLlama/TinyLlama-1.1B-Chat-v1.0'',
       ADAPTER_PATH =
         environ_get env (py ''ADAPTER_PATH'') (py ''./lora-ml-assistant/run1_baseline/final''),
       METRICS_PATH = environ_get env (py ''METRICS_PATH'') (py ''./logs/metrics.csv''),
       EXPERIMENTS_PATH =
         environ_get env (py ''EXPERIMENTS_PATH'') (py ''./logs/experiments.csv''),
       PERPLEXITY_PATH =
         environ_get env (py ''PERPLEXITY_PATH'') (py ''./logs/perplexity.json'') \<rparr>"

section \<open>The external objects the handlers talk to\<close>

text \<open>
  The tokenizer, the model, torch.cuda, the model hub and the file system are not code
  of this repository. Each is a record of what the handlers read from it; a call that
  can raise returns \<open>error + 'a\<close>. A token sequence is the single row of the
  \<open>1 \<times> n\<close> tensor the tokenizer returns for one prompt; the output of \<open>generate\<close>
  is the list of the rows of its tensor. A Python float is the real number it denotes;
  the handlers pass floats on and compute nothing with them. The keyword arguments of
  \<open>model.generate\<close> carry the prefix \<open>kw_\<close>. The field \<open>tokenizer_call\<close> is the call
  \<open>tokenizer(prompt, return_tensors="pt")\<close>, and \<open>decode\<close> takes the token ids and the flag
  \<open>skip_special_tokens\<close>.
\<close>

record encoding =
  input_ids :: "int list"
  attention_mask :: "int list"

record generate_kwargs =
  kw_input_ids :: "int list"
  kw_attention_mask :: "int list"
  kw_max_new_tokens :: int
  kw_temperature :: real
  kw_top_p :: real
  kw_do_sample :: bool
  kw_repetition_penalty :: real
  kw_pad_token_id :: "int option"

record tokenizer_obj =
  tokenizer_call :: "pystr \<Rightarrow> error + encoding"
  decode :: "int list \<Rightarrow> bool \<Rightarrow> error + pystr"
  eos_token :: "pystr option"
  eos_token_id :: "int option"
  pad_token :: "pystr option"

record parameter =
  numel :: nat
  param_device :: pystr

record model_obj =
  model_device :: pystr
  named_parameters :: "(pystr \<times> parameter) list"
  generate :: "generate_kwargs \<Rightarrow> error + int list list"

record cuda =
  cuda_devices :: "pystr list"
  memory_allocated :: nat
  format_gb :: "nat \<Rightarrow> pystr"

definition is_available :: "cuda \<Rightarrow> bool" where
  "is_available c = (cuda_devices c \<noteq> [])"

definition get_device_name :: "cuda \<Rightarrow> nat \<Rightarrow> error + pystr" where
  "get_device_name c i =
     (if i < length (cuda_devices c) then Inr (cuda_devices c ! i)
      else Inl (LibraryError (py ''invalid device ordinal'')))"

section \<open>Session state (lines 36 and 37)\<close>

record app_state =
  model :: "model_obj option"
  tokenizer :: "tokenizer_obj option"

definition initial_state :: app_state where
  "initial_state = \<lparr> model = None, tokenizer = None \<rparr>"

section \<open>Request and response bodies (lines 40 to 47)\<close>

record chat_request =
  message :: pystr
  max_tokens :: int
  temperature :: real

record chat_response =
  response :: pystr

section \<open>Startup: \<open>load_model\<close> (lines 50 to 74)\<close>





section \<open>POST /chat (lines 77 to 102)\<close>

text \<open>The f-string of lines 79 to 86.\<close>

definition chat_prompt :: "pystr \<Rightarrow> pystr" where
  "chat_prompt msg =
     py ''<|system|>'' @ nl
     @ py ''you are an expert ai/ml assistant specializing in machine learning, ''
     @ py ''deep learning, neural networks, and modern ai architectures. ''
     @ py ''provide clear, accurate, and educational responses.</s>'' @ nl
     @ py ''<|user|>'' @ nl @ msg @ py ''</s>'' @ nl
     @ py ''<|assistant|>'' @ nl"

text \<open>The three role markers of that template.\<close>

definition role_markers :: "pystr list" where
  "role_markers = [py ''<|system|>'', py ''<|user|>'', py ''<|assistant|>'']"

text \<open>
  The calls the handler makes into the libraries, in the order it makes them. The
  \<open>with torch.no_grad()\<close> block is the pair \<open>No_grad_enter\<close>, \<open>No_grad_exit\<close>; the
  block is left on an exception too.
\<close>

datatype event =
    Tokenizer_call pystr
  | To_device pystr
  | No_grad_enter
  | Generate generate_kwargs
  | No_grad_exit
  | Decode "int list" bool

text \<open>
  The handler returns its result and the calls it made. It reads the globals
  \<open>tokenizer\<close> and \<open>model\<close> without a guard: calling \<open>None\<close> raises \<open>TypeError\<close>,
  reading \<open>None.device\<close> raises \<open>AttributeError\<close>. \<open>outputs[0]\<close> raises
  \<open>IndexError\<close> on a tensor without rows, and the slice \<open>[n:]\<close> is empty when
  the row has at most \<open>n\<close> tokens.
\<close>

definition chat :: "app_state \<Rightarrow> chat_request \<Rightarrow> (error + chat_response) \<times> event list" where
  "chat s req =
     (let prompt = chat_prompt (message req)
      in case tokenizer s of
           None \<Rightarrow> (Inl TypeError, [])
         | Some tok \<Rightarrow>
             (case tokenizer_call tok prompt of
                Inl e \<Rightarrow> (Inl e, [Tokenizer_call prompt])
              | Inr inputs \<Rightarrow>
                  (case model s of
                     None \<Rightarrow> (Inl AttributeError, [Tokenizer_call prompt])
                   | Some m \<Rightarrow>
                       (let kw = \<lparr> kw_input_ids = input_ids inputs,
                                    kw_attention_mask = attention_mask inputs,
                                    kw_max_new_tokens = max_tokens req,
                                    kw_temperature = temperature req,
                                    kw_top_p = 9 / 10,
                                    kw_do_sample = True,
                                    kw_repetition_penalty = 12 / 10,
                                    kw_pad_token_id = eos_token_id tok \<rparr>;
                            calls = [Tokenizer_call prompt, To_device (model_device m),
                                     No_grad_enter, Generate kw, No_grad_exit]
                        in case generate m kw of
                             Inl e \<Rightarrow> (Inl e, calls)
                           | Inr outputs \<Rightarrow>
                               (case outputs of
                                  [] \<Rightarrow> (Inl IndexError, calls)
                                | row # _ \<Rightarrow>
                                    (let ids = drop (length (input_ids inputs)) row
                                     in case decode tok ids True of
                                          Inl e \<Rightarrow> (Inl e, calls @ [Decode ids True])
                                        | Inr text \<Rightarrow>
                                            (Inr \<lparr> response = strip text \<rparr>,
                                             calls @ [Decode ids True])))))))"

text \<open>The keyword arguments of the calls to \<open>model.generate\<close> in a list of calls, in order.\<close>

fun generate_calls :: "event list \<Rightarrow> generate_kwargs list" where
  "generate_calls [] = []"
| "generate_calls (Generate kw # es) = kw # generate_calls es"
| "generate_calls (e # es) = generate_calls es"

section \<open>GET /health (lines 105 to 112)\<close>

record health_response =
  status :: pystr
  model_loaded :: bool
  device :: pystr
  gpu :: pystr

text \<open>
  \<open>next(model.parameters())\<close> raises \<open>StopIteration\<close> on a model without parameters
  (the coroutine passes it on as a \<open>RuntimeError\<close>; the model keeps the exception that
  \<open>next\<close> raised).
  A model object is truthy (\<open>torch.nn.Module\<close> defines neither \<open>__bool__\<close> nor
  \<open>__len__\<close>), so \<open>if model\<close> tests for \<open>None\<close>. The dictionary display evaluates
  \<open>device\<close> before \<open>gpu\<close>.
\<close>

definition first_parameter :: "model_obj \<Rightarrow> error + parameter" where
  "first_parameter m =
     (case map snd (named_parameters m) of [] \<Rightarrow> Inl StopIteration | p # _ \<Rightarrow> Inr p)"

definition health :: "cuda \<Rightarrow> app_state \<Rightarrow> error + health_response" where
  "health c s =
     (case (case model s of
              None \<Rightarrow> Inr (py ''n/a'')
            | Some m \<Rightarrow>
                (case first_parameter m of Inl e \<Rightarrow> Inl e | Inr p \<Rightarrow> Inr (param_device p))) of
        Inl e \<Rightarrow> Inl e
      | Inr dev \<Rightarrow>
          (case (if is_available c then get_device_name c 0 else Inr (py ''cpu'')) of
             Inl e \<Rightarrow> Inl e
           | Inr g \<Rightarrow>
               Inr \<lparr> status = py ''ok'', model_loaded = (model s \<noteq> None),
                     device = dev, gpu = g \<rparr>))"

section \<open>GET /metrics (lines 115 to 133)\<close>

text \<open>
  The file system as one request sees it. \<open>read_csv_records\<close> is
  \<open>pd.read_csv(path).to_dict(orient="records")\<close> (with the import of pandas) and
  \<open>json_load\<close> is \<open>open(path)\<close> followed by \<open>json.load\<close>; both can raise, also on a
  path that \<open>os.path.exists\<close> has just reported. The handler passes their results on
  untouched, so their types are parameters.
\<close>

record ('r, 'j) filesystem =
  path_exists :: "pystr \<Rightarrow> bool"
  read_csv_records :: "pystr \<Rightarrow> error + 'r"
  json_load :: "pystr \<Rightarrow> error + 'j"

datatype ('r, 'j) metric = Records 'r | Json 'j

type_synonym ('r, 'j) metrics = "pystr \<rightharpoonup> ('r, 'j) metric"

definition get_metrics :: "('r, 'j) filesystem \<Rightarrow> config \<Rightarrow> error + ('r, 'j) metrics" where
  "get_metrics fs cfg =
     (let result = Map.empty
      in case (if path_exists fs (METRICS_PATH cfg)
               then (case read_csv_records fs (METRICS_PATH cfg) of
                       Inl e \<Rightarrow> Inl e
                     | Inr df \<Rightarrow> Inr (result(py ''comparison'' \<mapsto> Records df)))
               else Inr result) of
           Inl e \<Rightarrow> Inl e
         | Inr result \<Rightarrow>
             (case (if path_exists fs (PERPLEXITY_PATH cfg)
                    then (case json_load fs (PERPLEXITY_PATH cfg) of
                            Inl e \<Rightarrow> Inl e
                          | Inr v \<Rightarrow> Inr (result(py ''perplexity'' \<mapsto> Json v)))
                    else Inr result) of
                Inl e \<Rightarrow> Inl e
              | Inr result \<Rightarrow>
                  (if path_exists fs (EXPERIMENTS_PATH cfg)
                   then (case read_csv_records fs (EXPERIMENTS_PATH cfg) of
                           Inl e \<Rightarrow> Inl e
                         | Inr df \<Rightarrow> Inr (result(py ''experiments'' \<mapsto> Records df)))
                   else Inr result)))"

section \<open>GET /model-info (lines 136 to 152)\<close>

record model_info_response =
  base_model :: pystr
  adapter_path :: pystr
  quantization :: pystr
  total_params :: pystr
  trainable_params :: pystr
  vram_used :: pystr

text \<open>
  The loop of lines 140 to 143, on the pair of the counters \<open>total\<close> (here
  \<open>total_n\<close>) and \<open>adapter\<close>.
\<close>

fun count_parameters :: "(pystr \<times> parameter) list \<Rightarrow> nat \<times> nat \<Rightarrow> nat \<times> nat" where
  "count_parameters [] (total_n, adapter) = (total_n, adapter)"
| "count_parameters ((name, p) # rest) (total_n, adapter) =
     count_parameters rest
       (total_n + numel p,
        if str_contains (py ''lora_'') name \<or> str_contains (py ''modules_to_save'') name
        then adapter + numel p else adapter)"

text \<open>
  \<open>format_gb\<close> of the cuda record is the float division by \<open>1024**3\<close> and the format
  \<open>.2f\<close> of line 151.
\<close>

definition model_info :: "cuda \<Rightarrow> config \<Rightarrow> app_state \<Rightarrow> model_info_response" where
  "model_info c cfg s =
     (let (total_n, adapter) =
            (case model s of
               None \<Rightarrow> (0, 0)
             | Some m \<Rightarrow> count_parameters (named_parameters m) (0, 0))
      in \<lparr> base_model = MODEL_NAME cfg,
           adapter_path = ADAPTER_PATH cfg,
           quantization = py ''4-bit nf4 (qlora)'',
           total_params = format_thousands total_n,
           trainable_params = format_thousands adapter,
           vram_used =
             (if is_available c then format_gb c (memory_allocated c) @ py '' gb''
              else py ''n/a'') \<rparr>)"

section \<open>The server: startup, then requests\<close>






section \<open>Concrete objects for the examples\<close>

text \<open>
  A tokenizer with one token per code point. Token 2 is its end-of-sequence marker and
  its only special token, so \<open>decode\<close> drops it when special tokens are skipped.
\<close>

definition char_tokenizer :: tokenizer_obj where
  "char_tokenizer =
     \<lparr> tokenizer_call = (\<lambda>s. Inr \<lparr> input_ids = map int s, attention_mask = map (\<lambda>c. 1) s \<rparr>),
       decode = (\<lambda>ids skip. Inr (map nat (if skip then filter (\<lambda>i. i \<noteq> 2) ids else ids))),
       eos_token = Some (py ''</s>''),
       eos_token_id = Some 2,
       pad_token = Some (py ''</s>'') \<rparr>"

text \<open>
  A model on the CPU with one base weight, one adapter weight and one saved head. Its
  \<open>generate\<close> returns one row: the prompt tokens followed by a fixed continuation.
\<close>

definition example_model :: "int list \<Rightarrow> model_obj" where
  "example_model continuation =
     \<lparr> model_device = py ''cpu'',
       named_parameters =
         [(py ''q_proj.weight'', \<lparr> numel = 4096, param_device = py ''cpu'' \<rparr>),
          (py ''q_proj.lora_A.weight'', \<lparr> numel = 64, param_device = py ''cpu'' \<rparr>),
          (py ''modules_to_save.head'', \<lparr> numel = 100, param_device = py ''cpu'' \<rparr>)],
       generate = (\<lambda>kw. Inr [kw_input_ids kw @ continuation]) \<rparr>"

definition example_state :: "int list \<Rightarrow> app_state" where
  "example_state continuation =
     \<lparr> model = Some (example_model continuation), tokenizer = Some char_tokenizer \<rparr>"

definition no_cuda :: cuda where
  "no_cuda = \<lparr> cuda_devices = [], memory_allocated = 0, format_gb = (\<lambda>n. py ''0.00'') \<rparr>"

text \<open>A process environment in which every variable is set, to the same value.\<close>

definition all_set_environ :: "pystr \<Rightarrow> environ" where
  "all_set_environ v = (\<lambda>key. Some v)"

text \<open>
  Three file systems under the default paths: one holds the metrics table and the
  perplexity file, one the perplexity file alone, with the content
  \<^verbatim>\<open>{"ppl": 12.3}\<close>, and one holds nothing. A table is a list of records, a
  record and a JSON object a list of pairs.
\<close>

definition example_filesystem ::
  "((pystr \<times> real) list list, (pystr \<times> real) list) filesystem" where
  "example_filesystem =
     \<lparr> path_exists =
         (\<lambda>p. p = py ''./logs/metrics.csv'' \<or> p = py ''./logs/perplexity.json''),
       read_csv_records =
         (\<lambda>p. if p = py ''./logs/metrics.csv'' then Inr [[(py ''loss'', 2)]]
              else Inl (LibraryError (py ''FileNotFoundError''))),
       json_load =
         (\<lambda>p. if p = py ''./logs/perplexity.json'' then Inr [(py ''ppl'', 123 / 10)]
              else Inl (LibraryError (py ''FileNotFoundError''))) \<rparr>"

definition perplexity_only_filesystem ::
  "((pystr \<times> real) list list, (pystr \<times> real) list) filesystem" where
  "perplexity_only_filesystem =
     \<lparr> path_exists = (\<lambda>p. p = py ''./logs/perplexity.json''),
       read_csv_records = (\<lambda>p. Inl (LibraryError (py ''FileNotFoundError''))),
       json_load =
         (\<lambda>p. if p = py ''./logs/perplexity.json'' then Inr [(py ''ppl'', 123 / 10)]
              else Inl (LibraryError (py ''FileNotFoundError''))) \<rparr>"

definition empty_filesystem ::
  "((pystr \<times> real) list list, (pystr \<times> real) list) filesystem" where
  "empty_filesystem =
     \<lparr> path_exists = (\<lambda>p. False),
       read_csv_records = (\<lambda>p. Inl (LibraryError (py ''FileNotFoundError''))),
       json_load = (\<lambda>p. Inl (LibraryError (py ''FileNotFoundError''))) \<rparr>"



section \<open>Auxiliary facts\<close>

lemma digits_lt10: "n < 10 \<Longrightarrow> digits n = [48 + n]"
  by (subst digits.simps) simp

lemma digits_ge10: "10 \<le> n \<Longrightarrow> digits n = digits (n div 10) @ [48 + n mod 10]"
  by (subst digits.simps) simp

text \<open>\<open>sub in s\<close> holds exactly when \<open>sub\<close> is a contiguous part of \<open>s\<close>.\<close>

lemma str_contains_sublist: "str_contains sub s \<longleftrightarrow> sublist sub s"
  by (induction s) (simp_all add: sublist_Cons_right)

text \<open>The loop adds every element count to the first counter and the matching ones to the second.\<close>

lemma count_parameters_sums:
  "count_parameters ps (t, a) =
     (t + sum_list (map (numel \<circ> snd) ps),
      a + sum_list (map (numel \<circ> snd)
            (filter (\<lambda>(name, p). sublist (py ''lora_'') name \<or> sublist (py ''modules_to_save'') name) ps)))"
  by (induction ps arbitrary: t a) (auto simp: str_contains_sublist split: if_splits)

lemma sum_list_filter_le: "sum_list (map (f :: 'a \<Rightarrow> nat) (filter P xs)) \<le> sum_list (map f xs)"
  by (induction xs) auto

lemma format_thousands_example: "format_thousands 1234567 = py ''1,234,567''"
  by (simp add: format_thousands_def digits_ge10 digits_lt10 py_def)

lemma example_names:
  "\<not> sublist (py ''lora_'') (py ''q_proj.weight'')"
  "\<not> sublist (py ''modules_to_save'') (py ''q_proj.weight'')"
  "sublist (py ''lora_'') (py ''q_proj.lora_A.weight'')"
  "sublist (py ''modules_to_save'') (py ''modules_to_save.head'')"
  by (simp_all add: str_contains_sublist [symmetric] py_def)

text \<open>\<open>strip\<close> leaves no white space at either end.\<close>

lemma rstrip_prefix: "t = rstrip t @ rev (takeWhile isspace (rev t))"
proof -
  have "rev (rev t) = rev (takeWhile isspace (rev t) @ dropWhile isspace (rev t))"
    by simp
  then show ?thesis
    by (simp add: rstrip_def del: takeWhile_dropWhile_id)
qed

lemma strip_ends:
  "strip s = [] \<or> (\<not> isspace (hd (strip s)) \<and> \<not> isspace (last (strip s)))"
proof (cases "strip s = []")
  case True
  then show ?thesis by simp
next
  case False
  define t where "t = lstrip s"
  have ne: "rstrip t \<noteq> []"
    using False by (simp add: strip_def t_def)
  then have d: "dropWhile isspace (rev t) \<noteq> []"
    by (simp add: rstrip_def)
  then have "\<not> isspace (hd (dropWhile isspace (rev t)))"
    by (rule hd_dropWhile)
  moreover have "last (rstrip t) = hd (dropWhile isspace (rev t))"
    using d by (simp add: rstrip_def last_rev)
  ultimately have l: "\<not> isspace (last (rstrip t))"
    by simp
  have "hd t = hd (rstrip t @ rev (takeWhile isspace (rev t)))"
    using rstrip_prefix [of t] by simp
  then have hd_eq: "hd t = hd (rstrip t)"
    using ne by simp
  have "t \<noteq> []"
    using ne by (auto simp: rstrip_def)
  then have "\<not> isspace (hd t)"
    unfolding t_def lstrip_def by (rule hd_dropWhile)
  with hd_eq l show ?thesis
    by (simp add: strip_def t_def)
qed

text \<open>
  \<open>strip\<close> removes white space at the two ends only: a string that neither starts nor
  ends with white space, such as a role marker, stays inside the stripped text.
\<close>

lemma sublist_dropWhile:
  "sublist mk xs \<Longrightarrow> mk \<noteq> [] \<Longrightarrow> \<not> P (hd mk) \<Longrightarrow> sublist mk (dropWhile P xs)"
proof (induction xs)
  case Nil
  then show ?case by simp
next
  case (Cons x xs)
  show ?case
  proof (cases "P x")
    case True
    have "\<not> prefix mk (x # xs)"
      using Cons.prems True by (cases mk) auto
    with Cons.prems have "sublist mk xs"
      by (simp add: sublist_Cons_right)
    with Cons True show ?thesis
      by simp
  next
    case False
    with Cons.prems show ?thesis
      by simp
  qed
qed

lemma sublist_strip:
  assumes "sublist mk text" and "mk \<noteq> []"
    and "\<not> isspace (hd mk)" and "\<not> isspace (last mk)"
  shows "sublist mk (strip text)"
proof -
  have l: "sublist mk (lstrip text)"
    unfolding lstrip_def using assms(1-3) by (rule sublist_dropWhile)
  then have "sublist (rev mk) (rev (lstrip text))"
    by simp
  moreover have "rev mk \<noteq> []" and "\<not> isspace (hd (rev mk))"
    using assms(2,4) by (simp_all add: hd_rev)
  ultimately have "sublist (rev mk) (dropWhile isspace (rev (lstrip text)))"
    by (rule sublist_dropWhile)
  then have "sublist (rev (rev mk)) (rev (dropWhile isspace (rev (lstrip text))))"
    by (simp only: sublist_rev)
  then show ?thesis
    by (simp add: strip_def rstrip_def)
qed

lemma role_marker_ends:
  "mk \<in> set role_markers \<Longrightarrow> mk \<noteq> [] \<and> \<not> isspace (hd mk) \<and> \<not> isspace (last mk)"
  by (auto simp: role_markers_def py_def isspace_def)

lemma strip_keeps_role_markers:
  "mk \<in> set role_markers \<Longrightarrow> str_contains mk text \<Longrightarrow> str_contains mk (strip text)"
  using role_marker_ends [of mk] by (simp add: str_contains_sublist sublist_strip)

text \<open>The keys of the metrics response and the default paths are pairwise different strings.\<close>

lemma metric_keys_distinct:
  "py ''comparison'' \<noteq> py ''perplexity''"
  "py ''comparison'' \<noteq> py ''experiments''"
  "py ''perplexity'' \<noteq> py ''experiments''"
  "py ''perplexity'' \<noteq> py ''comparison''"
  "py ''experiments'' \<noteq> py ''comparison''"
  "py ''experiments'' \<noteq> py ''perplexity''"
  by (simp_all add: py_def)

lemma default_paths_distinct:
  "py ''./logs/metrics.csv'' \<noteq> py ''./logs/perplexity.json''"
  "py ''./logs/experiments.csv'' \<noteq> py ''./logs/perplexity.json''"
  "py ''./logs/experiments.csv'' \<noteq> py ''./logs/metrics.csv''"
  by (simp_all add: py_def)

lemma default_config:
  "METRICS_PATH (resolve_config Map.empty) = py ''./logs/metrics.csv''"
  "PERPLEXITY_PATH (resolve_config Map.empty) = py ''./logs/perplexity.json''"
  "EXPERIMENTS_PATH (resolve_config Map.empty) = py ''./logs/experiments.csv''"
  by (simp_all add: resolve_config_def environ_get_def)

text \<open>The example session answers every request with its fixed continuation.\<close>

lemma chat_example:
  "chat (example_state cont) req =
     (Inr \<lparr> response = strip (map nat (filter (\<lambda>i. i \<noteq> 2) cont)) \<rparr>,
      [Tokenizer_call (chat_prompt (message req)), To_device (py ''cpu''), No_grad_enter,
       Generate \<lparr> kw_input_ids = map int (chat_prompt (message req)),
                  kw_attention_mask = map (\<lambda>c. 1) (chat_prompt (message req)),
                  kw_max_new_tokens = max_tokens req,
                  kw_temperature = temperature req,
                  kw_top_p = 9 / 10,
                  kw_do_sample = True,
                  kw_repetition_penalty = 12 / 10,
                  kw_pad_token_id = Some 2 \<rparr>,
       No_grad_exit, Decode cont True])"
  by (simp add: chat_def Let_def example_state_def example_model_def char_tokenizer_def)





text \<open>No request makes a second call to \<open>model.generate\<close>.\<close>

lemma generate_calls_at_most_one: "length (generate_calls (snd (chat s req))) \<le> 1"
  by (simp add: chat_def Let_def split: option.splits sum.splits list.splits)


section \<open>Configuration\<close>

text \<open>
  C3, as the code has it: the base model identifier is the constant of line 30 in every
  environment; the adapter path, the metrics path, the experiments path and the
  perplexity path are each the value of their environment variable when it is set and
  their default otherwise. The resolver is total: an unset variable is no error.
\<close>

theorem resolve_config_sources:
  "MODEL_NAME (resolve_config env) = py ''TinyLlama/TinyLlama-1.1B-Chat-v1.0'' \<and>
   ADAPTER_PATH (resolve_config env) =
     (case env (py ''ADAPTER_PATH'') of
        None \<Rightarrow> py ''./lora-ml-assistant/run1_baseline/final'' | Some v \<Rightarrow> v) \<and>
   METRICS_PATH (resolve_config env) =
     (case env (py ''METRICS_PATH'') of None \<Rightarrow> py ''./logs/metrics.csv'' | Some v \<Rightarrow> v) \<and>
   EXPERIMENTS_PATH (resolve_config env) =
     (case env (py ''EXPERIMENTS_PATH'') of None \<Rightarrow> py ''./logs/experiments.csv'' | Some v \<Rightarrow> v) \<and>
   PERPLEXITY_PATH (resolve_config env) =
     (case env (py ''PERPLEXITY_PATH'') of None \<Rightarrow> py ''./logs/perplexity.json'' | Some v \<Rightarrow> v)"
  by (simp add: resolve_config_def environ_get_def)

text \<open>
  C3 as stated fails for the base model identifier: with every environment variable set
  to \<open>gpt2\<close> the adapter path is \<open>gpt2\<close>, and the model identifier is still the
  constant.
\<close>

theorem resolve_config_model_name_counterexample:
  "MODEL_NAME (resolve_config (all_set_environ (py ''gpt2''))) =
     py ''TinyLlama/TinyLlama-1.1B-Chat-v1.0'' \<and>
   MODEL_NAME (resolve_config (all_set_environ (py ''gpt2''))) \<noteq> py ''gpt2'' \<and>
   ADAPTER_PATH (resolve_config (all_set_environ (py ''gpt2''))) = py ''gpt2''"
  by (simp add: resolve_config_def all_set_environ_def environ_get_def py_def)

section \<open>GET /model-info\<close>

text \<open>
  C7: before the session is initialised (the global \<open>model\<close> is \<open>None\<close>) the response
  reports \<open>total_params\<close> and \<open>trainable_params\<close> as the string \<open>0\<close>.
\<close>

theorem model_info_before_init:
  "model s = None \<Longrightarrow>
     total_params (model_info c cfg s) = py ''0'' \<and>
     trainable_params (model_info c cfg s) = py ''0''"
  by (simp add: model_info_def format_thousands_def digits_lt10 py_def)

theorem model_info_before_init_witness:
  "model initial_state = None \<and>
   total_params (model_info no_cuda (resolve_config Map.empty) initial_state) = py ''0'' \<and>
   trainable_params (model_info no_cuda (resolve_config Map.empty) initial_state) = py ''0''"
  using model_info_before_init [of initial_state no_cuda "resolve_config Map.empty"]
  by (simp add: initial_state_def)

text \<open>
  C8: with a populated session, \<open>total_params\<close> is the formatted sum of the element
  counts of all named parameters of the model, \<open>trainable_params\<close> is the formatted sum
  over exactly the parameters whose name contains \<open>lora_\<close> or \<open>modules_to_save\<close>, and
  the second sum never exceeds the first.
\<close>

theorem model_info_counts:
  "model s = Some m \<Longrightarrow>
     total_params (model_info c cfg s) =
       format_thousands (sum_list (map (numel \<circ> snd) (named_parameters m))) \<and>
     trainable_params (model_info c cfg s) =
       format_thousands (sum_list (map (numel \<circ> snd)
         (filter (\<lambda>(name, p). sublist (py ''lora_'') name \<or> sublist (py ''modules_to_save'') name)
            (named_parameters m)))) \<and>
     sum_list (map (numel \<circ> snd)
         (filter (\<lambda>(name, p). sublist (py ''lora_'') name \<or> sublist (py ''modules_to_save'') name)
            (named_parameters m)))
       \<le> sum_list (map (numel \<circ> snd) (named_parameters m))"
  by (simp add: model_info_def count_parameters_sums sum_list_filter_le)

theorem model_info_counts_witness:
  "model (example_state []) = Some (example_model []) \<and>
   total_params (model_info no_cuda (resolve_config Map.empty) (example_state [])) =
     py ''4,260'' \<and>
   trainable_params (model_info no_cuda (resolve_config Map.empty) (example_state [])) =
     py ''164''"
  using model_info_counts
    [of "example_state []" "example_model []" no_cuda "resolve_config Map.empty"]
  by (simp add: example_state_def example_model_def example_names format_thousands_def
      digits_ge10 digits_lt10, simp add: py_def)

section \<open>POST /chat\<close>

text \<open>
  C10: a chat request that arrives while \<open>model\<close> and \<open>tokenizer\<close> are both \<open>None\<close>
  raises: the handler calls the tokenizer without a guard, which is a \<open>TypeError\<close>
  before any library call is made, and no response is returned.
\<close>

theorem chat_before_startup: "chat initial_state req = (Inl TypeError, [])"
  by (simp add: chat_def initial_state_def)

text \<open>
  C1, as the code has it: when the handler returns a response, its text is
  \<open>tokenizer.decode(outputs[0][n:], skip_special_tokens=True).strip()\<close>, where
  \<open>outputs\<close> is the result of the handler's own call to \<open>model.generate\<close> on the
  tokenized prompt and \<open>n\<close> is the number of those prompt tokens. Only the tokens
  after the first \<open>n\<close> of the first output row are decoded, special tokens are left
  to the tokenizer to skip, and the text has no white space at either end. The handler
  filters no text of its own: every role marker of the prompt template that the decoded
  text contains is in the response too.
\<close>

theorem chat_response_text:
  assumes "fst (chat s req) = Inr r"
  shows "\<exists>tok m inputs row rest text.
      tokenizer s = Some tok \<and> model s = Some m \<and>
      tokenizer_call tok (chat_prompt (message req)) = Inr inputs \<and>
      generate m \<lparr> kw_input_ids = input_ids inputs,
                   kw_attention_mask = attention_mask inputs,
                   kw_max_new_tokens = max_tokens req,
                   kw_temperature = temperature req,
                   kw_top_p = 9 / 10,
                   kw_do_sample = True,
                   kw_repetition_penalty = 12 / 10,
                   kw_pad_token_id = eos_token_id tok \<rparr> = Inr (row # rest) \<and>
      decode tok (drop (length (input_ids inputs)) row) True = Inr text \<and>
      response r = strip text \<and>
      (response r = [] \<or> (\<not> isspace (hd (response r)) \<and> \<not> isspace (last (response r)))) \<and>
      (\<forall>mk \<in> set role_markers. str_contains mk text \<longrightarrow> str_contains mk (response r))"
  using assms strip_ends strip_keeps_role_markers
  by (auto simp: chat_def Let_def split: option.splits sum.splits list.splits) blast+

theorem chat_response_text_witness:
  "fst (chat (example_state (map int (py '' gradient descent '') @ [2]))
         \<lparr> message = py ''hi'', max_tokens = 512, temperature = 7 / 10 \<rparr>) =
     Inr \<lparr> response = py ''gradient descent'' \<rparr> \<and>
   \<not> isspace (hd (py ''gradient descent'')) \<and> \<not> isspace (last (py ''gradient descent''))"
proof -
  have ev: "fst (chat (example_state (map int (py '' gradient descent '') @ [2]))
         \<lparr> message = py ''hi'', max_tokens = 512, temperature = 7 / 10 \<rparr>) =
     Inr \<lparr> response = py ''gradient descent'' \<rparr>"
    by (simp add: chat_example) (simp add: py_def strip_def lstrip_def rstrip_def isspace_def)
  from chat_response_text [OF ev]
  have "response \<lparr> response = py ''gradient descent'' \<rparr> = [] \<or>
        (\<not> isspace (hd (response \<lparr> response = py ''gradient descent'' \<rparr>)) \<and>
         \<not> isspace (last (response \<lparr> response = py ''gradient descent'' \<rparr>)))"
    by blast
  then have "\<not> isspace (hd (py ''gradient descent'')) \<and> \<not> isspace (last (py ''gradient descent''))"
    by (simp add: py_def)
  with ev show ?thesis
    by blast
qed

text \<open>
  C1 as stated fails for the role markers: they are ordinary text to a tokenizer whose
  only special token is the end-of-sequence marker, so a continuation that spells
  \<open><|user|>\<close> comes back in the response, and \<open><|user|>\<close> is a marker of the prompt
  template.
\<close>

theorem chat_role_marker_counterexample:
  "fst (chat (example_state (map int (py ''<|user|>'')))
         \<lparr> message = py ''hi'', max_tokens = 512, temperature = 7 / 10 \<rparr>) =
     Inr \<lparr> response = py ''<|user|>'' \<rparr> \<and>
   str_contains (py ''<|user|>'') (py ''<|user|>'') \<and>
   str_contains (py ''<|user|>'') (chat_prompt (py ''hi''))"
proof -
  have "fst (chat (example_state (map int (py ''<|user|>'')))
         \<lparr> message = py ''hi'', max_tokens = 512, temperature = 7 / 10 \<rparr>) =
     Inr \<lparr> response = py ''<|user|>'' \<rparr>"
    by (simp add: chat_example) (simp add: py_def strip_def lstrip_def rstrip_def isspace_def)
  moreover have "str_contains (py ''<|user|>'') (py ''<|user|>'')"
    by (simp add: str_contains_sublist)
  moreover have "chat_prompt (py ''hi'') =
      (py ''<|system|>'' @ nl
       @ py ''you are an expert ai/ml assistant specializing in machine learning, ''
       @ py ''deep learning, neural networks, and modern ai architectures. ''
       @ py ''provide clear, accurate, and educational responses.</s>'' @ nl)
      @ py ''<|user|>'' @ (nl @ py ''hi'' @ py ''</s>'' @ nl @ py ''<|assistant|>'' @ nl)"
    by (simp add: chat_prompt_def)
  then have "sublist (py ''<|user|>'') (chat_prompt (py ''hi''))"
    by (simp only: sublist_appendI)
  ultimately show ?thesis
    by (simp add: str_contains_sublist)
qed



section \<open>GET /health\<close>

text \<open>
  C6: in every session state that startup can leave, that is with \<open>model\<close> unset or
  bound to a model that has a parameter, the handler does not raise. It returns status
  \<open>ok\<close>, \<open>model_loaded\<close> telling whether \<open>model\<close> is bound, the device of the first
  parameter or, before initialisation, the sentinel \<open>n/a\<close>, and as gpu the name of
  device 0 or, without an accelerator, the sentinel \<open>cpu\<close>.
\<close>

theorem health_before_and_after_startup:
  assumes "\<forall>m. model s = Some m \<longrightarrow> named_parameters m \<noteq> []"
  shows "health c s =
     Inr \<lparr> status = py ''ok'',
           model_loaded = (model s \<noteq> None),
           device = (case model s of
                       None \<Rightarrow> py ''n/a''
                     | Some m \<Rightarrow> param_device (snd (hd (named_parameters m)))),
           gpu = (case cuda_devices c of [] \<Rightarrow> py ''cpu'' | d # ds \<Rightarrow> d) \<rparr>"
  using assms
  by (auto simp: health_def first_parameter_def is_available_def get_device_name_def
      split: option.splits list.splits)

theorem health_before_and_after_startup_witness:
  "model initial_state = None \<and>
   health no_cuda initial_state =
     Inr \<lparr> status = py ''ok'', model_loaded = False, device = py ''n/a'', gpu = py ''cpu'' \<rparr> \<and>
   model (example_state []) = Some (example_model []) \<and>
   named_parameters (example_model []) \<noteq> [] \<and>
   health no_cuda (example_state []) =
     Inr \<lparr> status = py ''ok'', model_loaded = True, device = py ''cpu'', gpu = py ''cpu'' \<rparr>"
proof -
  have a: "\<forall>m. model initial_state = Some m \<longrightarrow> named_parameters m \<noteq> []"
    by (simp add: initial_state_def)
  have b: "\<forall>m. model (example_state []) = Some m \<longrightarrow> named_parameters m \<noteq> []"
    by (simp add: example_state_def example_model_def)
  from health_before_and_after_startup [OF a, of no_cuda]
    health_before_and_after_startup [OF b, of no_cuda]
  show ?thesis
    by (simp add: initial_state_def example_state_def example_model_def no_cuda_def)
qed

section \<open>GET /metrics\<close>

text \<open>
  C4: whenever the handler returns a response, each of the keys \<open>comparison\<close>,
  \<open>perplexity\<close> and \<open>experiments\<close> is in it if and only if the file at the metrics,
  perplexity and experiments path exists, and it has no other key; when none of the
  three files exists the handler returns the empty object.
\<close>

theorem get_metrics_keys:
  "(get_metrics fs cfg = Inr result \<longrightarrow>
      (py ''comparison'' \<in> dom result \<longleftrightarrow> path_exists fs (METRICS_PATH cfg)) \<and>
      (py ''perplexity'' \<in> dom result \<longleftrightarrow> path_exists fs (PERPLEXITY_PATH cfg)) \<and>
      (py ''experiments'' \<in> dom result \<longleftrightarrow> path_exists fs (EXPERIMENTS_PATH cfg)) \<and>
      dom result \<subseteq> {py ''comparison'', py ''perplexity'', py ''experiments''}) \<and>
   (\<not> path_exists fs (METRICS_PATH cfg) \<and> \<not> path_exists fs (PERPLEXITY_PATH cfg) \<and>
    \<not> path_exists fs (EXPERIMENTS_PATH cfg) \<longrightarrow> get_metrics fs cfg = Inr Map.empty)"
  by (auto simp: get_metrics_def Let_def metric_keys_distinct split: if_splits sum.splits)

theorem get_metrics_keys_witness:
  "get_metrics example_filesystem (resolve_config Map.empty) =
     Inr [py ''comparison'' \<mapsto> Records [[(py ''loss'', 2)]],
          py ''perplexity'' \<mapsto> Json [(py ''ppl'', 123 / 10)]] \<and>
   py ''comparison'' \<in> dom [py ''comparison'' \<mapsto> Records [[(py ''loss'', 2 :: real)]],
          py ''perplexity'' \<mapsto> Json [(py ''ppl'', 123 / 10 :: real)]] \<and>
   path_exists example_filesystem (METRICS_PATH (resolve_config Map.empty)) \<and>
   py ''experiments'' \<notin> dom [py ''comparison'' \<mapsto> Records [[(py ''loss'', 2 :: real)]],
          py ''perplexity'' \<mapsto> Json [(py ''ppl'', 123 / 10 :: real)]] \<and>
   \<not> path_exists example_filesystem (EXPERIMENTS_PATH (resolve_config Map.empty)) \<and>
   \<not> path_exists empty_filesystem (METRICS_PATH (resolve_config Map.empty)) \<and>
   \<not> path_exists empty_filesystem (PERPLEXITY_PATH (resolve_config Map.empty)) \<and>
   \<not> path_exists empty_filesystem (EXPERIMENTS_PATH (resolve_config Map.empty)) \<and>
   get_metrics empty_filesystem (resolve_config Map.empty) = Inr Map.empty"
proof -
  let ?cfg = "resolve_config Map.empty"
  let ?R = "[py ''comparison'' \<mapsto> Records [[(py ''loss'', 2 :: real)]],
             py ''perplexity'' \<mapsto> Json [(py ''ppl'', 123 / 10 :: real)]]"
  have ev: "get_metrics example_filesystem ?cfg = Inr ?R"
    by (simp add: get_metrics_def example_filesystem_def default_config default_paths_distinct)
  have ex: "path_exists example_filesystem (METRICS_PATH ?cfg)"
    "\<not> path_exists example_filesystem (EXPERIMENTS_PATH ?cfg)"
    by (simp_all add: example_filesystem_def default_config default_paths_distinct)
  have none: "\<not> path_exists empty_filesystem (METRICS_PATH ?cfg)"
    "\<not> path_exists empty_filesystem (PERPLEXITY_PATH ?cfg)"
    "\<not> path_exists empty_filesystem (EXPERIMENTS_PATH ?cfg)"
    by (simp_all add: empty_filesystem_def)
  from get_metrics_keys [of example_filesystem ?cfg ?R] ev ex
  have keys: "py ''comparison'' \<in> dom ?R" "py ''experiments'' \<notin> dom ?R"
    by blast+
  from get_metrics_keys [of empty_filesystem ?cfg ?R] none
  have "get_metrics empty_filesystem ?cfg = Inr Map.empty"
    by blast
  with ev ex none keys show ?thesis
    by blast
qed

text \<open>
  C5: when only the perplexity file exists and \<open>json.load\<close> yields \<open>v\<close>, the response
  is exactly the object with the one key \<open>perplexity\<close> bound to \<open>v\<close>.
\<close>

theorem get_metrics_perplexity_only:
  "\<not> path_exists fs (METRICS_PATH cfg) \<Longrightarrow> path_exists fs (PERPLEXITY_PATH cfg) \<Longrightarrow>
   \<not> path_exists fs (EXPERIMENTS_PATH cfg) \<Longrightarrow> json_load fs (PERPLEXITY_PATH cfg) = Inr v \<Longrightarrow>
   get_metrics fs cfg = Inr [py ''perplexity'' \<mapsto> Json v]"
  by (simp add: get_metrics_def)

theorem get_metrics_perplexity_only_witness:
  "\<not> path_exists perplexity_only_filesystem (METRICS_PATH (resolve_config Map.empty)) \<and>
   path_exists perplexity_only_filesystem (PERPLEXITY_PATH (resolve_config Map.empty)) \<and>
   \<not> path_exists perplexity_only_filesystem (EXPERIMENTS_PATH (resolve_config Map.empty)) \<and>
   json_load perplexity_only_filesystem (PERPLEXITY_PATH (resolve_config Map.empty)) =
     Inr [(py ''ppl'', 123 / 10)] \<and>
   get_metrics perplexity_only_filesystem (resolve_config Map.empty) =
     Inr [py ''perplexity'' \<mapsto> Json [(py ''ppl'', 123 / 10)]]"
proof -
  let ?cfg = "resolve_config Map.empty"
  have h1: "\<not> path_exists perplexity_only_filesystem (METRICS_PATH ?cfg)"
    and h2: "path_exists perplexity_only_filesystem (PERPLEXITY_PATH ?cfg)"
    and h3: "\<not> path_exists perplexity_only_filesystem (EXPERIMENTS_PATH ?cfg)"
    and h4: "json_load perplexity_only_filesystem (PERPLEXITY_PATH ?cfg) =
               Inr [(py ''ppl'', 123 / 10)]"
    by (simp_all add: perplexity_only_filesystem_def default_config default_paths_distinct)
  from get_metrics_perplexity_only [OF h1 h2 h3 h4] h1 h2 h3 h4 show ?thesis
    by blast
qed

section \<open>Session state\<close>



end
